theory Spec2Isabelle
  imports Main "HOL-Library.AList"
begin

section \<open>Time and configuration\<close>

text \<open>
  A \<^verbatim>\<open>Date\<close> is its number of milliseconds since the epoch, an integer
  (\<^verbatim>\<open>Date.now()\<close>, \<^verbatim>\<open>getTime()\<close>). One request is handled at one instant
  \<open>now\<close>: every \<^verbatim>\<open>Date.now()\<close> and \<^verbatim>\<open>new Date()\<close> of a handler reads the same
  clock value.
\<close>

type_synonym millis = int

definition sevenDays :: millis where
  "sevenDays = 7 * 24 * 60 * 60 * 1000"

text \<open>
  The four environment variables read by \<^verbatim>\<open>src/utils/jwt.ts\<close>. A secret is a string
  that may be unset; an expiry is kept as the number of seconds its time-span string
  denotes (\<^verbatim>\<open>"15m"\<close> is 900, \<^verbatim>\<open>"7d"\<close> is 604800).
\<close>

record env =
  JWT_ACCESS_SECRET :: "string option"
  JWT_REFRESH_SECRET :: "string option"
  JWT_ACCESS_EXPIRY :: "int option"
  JWT_REFRESH_EXPIRY :: "int option"

text \<open>\<^verbatim>\<open>process.env.X || "default"\<close>: an unset variable and the empty string are both falsy.\<close>

definition env_or :: "string option \<Rightarrow> string \<Rightarrow> string" where
  "env_or v d = (case v of None \<Rightarrow> d | Some s \<Rightarrow> if s = [] then d else s)"

definition span_or :: "int option \<Rightarrow> int \<Rightarrow> int" where
  "span_or v d = (case v of None \<Rightarrow> d | Some n \<Rightarrow> n)"

definition access_secret :: "env \<Rightarrow> string" where
  "access_secret e = env_or (JWT_ACCESS_SECRET e) ''access-secret''"

definition refresh_secret :: "env \<Rightarrow> string" where
  "refresh_secret e = env_or (JWT_REFRESH_SECRET e) ''refresh-secret''"

definition access_expiry :: "env \<Rightarrow> int" where
  "access_expiry e = span_or (JWT_ACCESS_EXPIRY e) (15 * 60)"

definition refresh_expiry :: "env \<Rightarrow> int" where
  "refresh_expiry e = span_or (JWT_REFRESH_EXPIRY e) (7 * 24 * 60 * 60)"

definition default_env :: env where
  "default_env = \<lparr>JWT_ACCESS_SECRET = None, JWT_REFRESH_SECRET = None,
                   JWT_ACCESS_EXPIRY = None, JWT_REFRESH_EXPIRY = None\<rparr>"


section \<open>Token codec: \<^verbatim>\<open>src/utils/jwt.ts\<close>\<close>

record TokenPayload =
  userId :: string
  email :: "string option"
  iat :: "int option"
  exp :: "int option"

text \<open>
  The \<^verbatim>\<open>jsonwebtoken\<close> library is modelled symbolically, in the style of the
  protocol models of HOL's \<open>Auth\<close>: a signed token is the payload together with the
  secret that signed it, and every other cookie value is \<open>Malformed\<close>. Two token
  strings are equal exactly when these values are equal.
\<close>

datatype jwt = Jwt TokenPayload string | Malformed string

datatype jwt_error = JsonWebTokenError | TokenExpiredError

text \<open>
  \<^verbatim>\<open>jwt.sign(payload, secret, {expiresIn})\<close> at time \<open>now\<close>: \<^verbatim>\<open>iat\<close> is the clock in
  whole seconds (or the payload's own \<^verbatim>\<open>iat\<close> when it has a truthy one) and
  \<^verbatim>\<open>exp = iat + expiresIn\<close>. Every call site passes \<^verbatim>\<open>{userId, email}\<close> only;
  an \<^verbatim>\<open>email\<close> that is \<^verbatim>\<open>undefined\<close> is left out of the signed payload (\<open>None\<close>).
\<close>

definition jwt_sign :: "TokenPayload \<Rightarrow> string \<Rightarrow> int \<Rightarrow> millis \<Rightarrow> jwt" where
  "jwt_sign payload secret expiresIn now =
     (let timestamp = (case iat payload of
                         None \<Rightarrow> now div 1000
                       | Some i \<Rightarrow> if i = 0 then now div 1000 else i)
      in Jwt (payload\<lparr>iat := Some timestamp, exp := Some (timestamp + expiresIn)\<rparr>) secret)"

text \<open>
  \<^verbatim>\<open>jwt.verify(token, secret)\<close> at time \<open>now\<close>: a malformed token or a signature made
  with another secret throws \<^verbatim>\<open>JsonWebTokenError\<close>; a token whose \<^verbatim>\<open>exp\<close> is not
  after the clock (in whole seconds) throws \<^verbatim>\<open>TokenExpiredError\<close>.
\<close>

definition jwt_verify :: "jwt \<Rightarrow> string \<Rightarrow> millis \<Rightarrow> jwt_error + TokenPayload" where
  "jwt_verify t secret now =
     (case t of
        Malformed s \<Rightarrow> Inl JsonWebTokenError
      | Jwt payload key \<Rightarrow>
          if key \<noteq> secret then Inl JsonWebTokenError
          else (case exp payload of
                  None \<Rightarrow> Inr payload
                | Some x \<Rightarrow> if now div 1000 \<ge> x then Inl TokenExpiredError else Inr payload))"

definition generateAccessToken :: "env \<Rightarrow> millis \<Rightarrow> TokenPayload \<Rightarrow> jwt" where
  "generateAccessToken e now payload = jwt_sign payload (access_secret e) (access_expiry e) now"

definition generateRefreshToken :: "env \<Rightarrow> millis \<Rightarrow> TokenPayload \<Rightarrow> jwt" where
  "generateRefreshToken e now payload = jwt_sign payload (refresh_secret e) (refresh_expiry e) now"

definition verifyAccessToken :: "env \<Rightarrow> millis \<Rightarrow> jwt \<Rightarrow> jwt_error + TokenPayload" where
  "verifyAccessToken e now t = jwt_verify t (access_secret e) now"

definition verifyRefreshToken :: "env \<Rightarrow> millis \<Rightarrow> jwt \<Rightarrow> jwt_error + TokenPayload" where
  "verifyRefreshToken e now t = jwt_verify t (refresh_secret e) now"

text \<open>The object literal \<^verbatim>\<open>{ userId: ..., email: ... }\<close> of the call sites.\<close>

definition subject :: "string \<Rightarrow> string option \<Rightarrow> TokenPayload" where
  "subject uid em = \<lparr>userId = uid, email = em, iat = None, exp = None\<rparr>"


section \<open>The user document: \<^verbatim>\<open>src/models/User.ts\<close>\<close>

record RefreshTokenEntry =
  token :: jwt
  createdAt :: millis
  lastUsedAt :: millis

record RefreshHistoryEntry =
  hist_token :: jwt
  hist_lastUsedAt :: millis

text \<open>
  The fields of the schema that the handlers read or write. The field \<open>password\<close> holds
  the bcrypt hash; the document's own \<^verbatim>\<open>createdAt\<close>/\<^verbatim>\<open>updatedAt\<close> timestamps are
  left out.
\<close>

record User =
  user_email :: string
  password :: string
  name :: string
  refreshToken :: "RefreshTokenEntry list"
  refreshHistory :: "RefreshHistoryEntry list"

text \<open>The collection, keyed by \<^verbatim>\<open>_id\<close> (as its string).\<close>

type_synonym db = "(string \<times> User) list"

text \<open>
  \<^verbatim>\<open>User.findById(id)\<close> first casts the id to an ObjectId and throws \<^verbatim>\<open>CastError\<close>
  when the string is not one. Which strings the driver casts is the parameter
  \<open>isObjectId\<close>. The result is the error, or the document if there is one.
\<close>

datatype mongoose_error = CastError

definition findById :: "(string \<Rightarrow> bool) \<Rightarrow> db \<Rightarrow> string \<Rightarrow> mongoose_error + User option" where
  "findById isObjectId d i = (if isObjectId i then Inr (map_of d i) else Inl CastError)"

definition findOne_email :: "db \<Rightarrow> string \<Rightarrow> (string \<times> User) option" where
  "findOne_email d em = List.find (\<lambda>p. user_email (snd p) = em) d"

text \<open>
  \<^verbatim>\<open>User.findByIdAndUpdate(user._id, update)\<close>, called with the \<^verbatim>\<open>_id\<close> of a loaded
  document: the update is applied to the stored document; no document with that id, no
  change.
\<close>

definition findByIdAndUpdate :: "string \<Rightarrow> (User \<Rightarrow> User) \<Rightarrow> db \<Rightarrow> db" where
  "findByIdAndUpdate i f d =
     (case map_of d i of None \<Rightarrow> d | Some u \<Rightarrow> AList.update i (f u) d)"

text \<open>\<^verbatim>\<open>user.save()\<close>: the in-memory document replaces the stored one.\<close>

definition save :: "string \<Rightarrow> User \<Rightarrow> db \<Rightarrow> db" where
  "save i u d = findByIdAndUpdate i (\<lambda>_. u) d"

text \<open>
  \<^verbatim>\<open>{ $set: { <path>: [] } }\<close>. The schema is strict: a path that the schema does
  not declare is dropped from the update, which then changes neither array.
\<close>

definition set_empty :: "string \<Rightarrow> User \<Rightarrow> User" where
  "set_empty path u =
     (if path = ''refreshToken'' then u\<lparr>refreshToken := []\<rparr>
      else if path = ''refreshHistory'' then u\<lparr>refreshHistory := []\<rparr>
      else u)"

text \<open>\<^verbatim>\<open>{ $pull: { refreshToken: { createdAt: { $lt: bound } } } }\<close>\<close>

definition pull_createdAt_lt :: "millis \<Rightarrow> User \<Rightarrow> User" where
  "pull_createdAt_lt bound u =
     u\<lparr>refreshToken := filter (\<lambda>t. \<not> createdAt t < bound) (refreshToken u)\<rparr>"

text \<open>\<^verbatim>\<open>{ $pull: { refreshToken: { token: t } } }\<close>\<close>

definition pull_token :: "jwt \<Rightarrow> User \<Rightarrow> User" where
  "pull_token t u = u\<lparr>refreshToken := filter (\<lambda>x. token x \<noteq> t) (refreshToken u)\<rparr>"

text \<open>\<^verbatim>\<open>{ $push: { refreshToken: entry, refreshHistory: h } }\<close>\<close>

definition push_both :: "RefreshTokenEntry \<Rightarrow> RefreshHistoryEntry \<Rightarrow> User \<Rightarrow> User" where
  "push_both entry h u =
     u\<lparr>refreshToken := refreshToken u @ [entry], refreshHistory := refreshHistory u @ [h]\<rparr>"

text \<open>
  \<^verbatim>\<open>comparePassword\<close>: \<^verbatim>\<open>bcrypt.compare(candidate, this.password)\<close>. The bcrypt
  functions are parameters: \<open>cmp candidate hash\<close> is \<open>None\<close> when bcrypt throws (the
  method rethrows \<^verbatim>\<open>"Error comparing passwords"\<close>).
\<close>

definition comparePassword :: "(string \<Rightarrow> string \<Rightarrow> bool option) \<Rightarrow> User \<Rightarrow> string \<Rightarrow> bool option" where
  "comparePassword cmp u candidatePassword = cmp candidatePassword (password u)"


section \<open>Responses\<close>

text \<open>
  The bodies the handlers send: \<^verbatim>\<open>{error}\<close>, \<^verbatim>\<open>{message}\<close>, and
  \<^verbatim>\<open>{message, accessToken, user: {id, email, name}}\<close>, where a field whose value is
  \<^verbatim>\<open>undefined\<close> is left out (\<open>None\<close>).
\<close>

datatype json =
    ErrorJson string
  | MessageJson string
  | SessionJson string jwt string "string option" "string option"

datatype cookie_effect = CookieKept | CookieCleared | CookieSet jwt

record response =
  status :: nat
  body :: json
  cookie :: cookie_effect

definition reply :: "nat \<Rightarrow> json \<Rightarrow> cookie_effect \<Rightarrow> response" where
  "reply s b c = \<lparr>status = s, body = b, cookie = c\<rparr>"


section \<open>Handlers: \<^verbatim>\<open>src/controllers/authController.ts\<close>\<close>

text \<open>
  A handler takes the request's inputs and the collection, and returns the response
  and the collection after it.

  \<open>login\<close>: \<^verbatim>\<open>POST /api/auth/login\<close>. The query is
  \<^verbatim>\<open>User.findOne({ email }).select("+ password")\<close>. The selection string is split
  at its blank, so it names the path \<^verbatim>\<open>password\<close> as an inclusive projection:
  the loaded document has \<^verbatim>\<open>_id\<close> and \<^verbatim>\<open>password\<close> only. On the successful
  path \<^verbatim>\<open>user.email\<close>, \<^verbatim>\<open>user.name\<close> and \<^verbatim>\<open>user.refreshToken\<close> are therefore
  \<^verbatim>\<open>undefined\<close>: the tokens carry no email, \<^verbatim>\<open>user.refreshToken?.push(...)\<close> does
  nothing, and \<^verbatim>\<open>user.save()\<close> has nothing to write.
\<close>

definition login ::
  "env \<Rightarrow> (string \<Rightarrow> string \<Rightarrow> bool option) \<Rightarrow> millis \<Rightarrow> string \<Rightarrow> string \<Rightarrow> db \<Rightarrow> response \<times> db" where
  "login e cmp now em pw d =
     (case findOne_email d em of
        None \<Rightarrow> (reply 401 (ErrorJson ''Invalid credentials'') CookieKept, d)
      | Some (i, user) \<Rightarrow>
          (case comparePassword cmp user pw of
             None \<Rightarrow> (reply 500 (ErrorJson ''Internal server error'') CookieKept, d)
           | Some False \<Rightarrow> (reply 401 (ErrorJson ''Invalid credentials'') CookieKept, d)
           | Some True \<Rightarrow>
               (let accessToken = generateAccessToken e now (subject i None);
                    refreshTok = generateRefreshToken e now (subject i None)
                in (reply 200 (SessionJson ''Login successfuly'' accessToken i None None)
                      (CookieSet refreshTok),
                    d))))"

text \<open>
  The tail of \<open>refresh\<close> (lines 193 to 254), reached when the presented token is in
  the active array or the grace check passed: prune, pull the presented token and
  empty the history, mint a pair, push the new entry and the history entry.
\<close>

definition refresh_rotate :: "env \<Rightarrow> millis \<Rightarrow> string \<Rightarrow> User \<Rightarrow> jwt \<Rightarrow> db \<Rightarrow> response \<times> db" where
  "refresh_rotate e now uid user refreshTok d =
     (let sevenDaysAgo = now - sevenDays;
          d1 = findByIdAndUpdate uid (pull_createdAt_lt sevenDaysAgo) d;
          d2 = findByIdAndUpdate uid (\<lambda>u. pull_token refreshTok (set_empty ''refreshHistory'' u)) d1;
          newAccessToken = generateAccessToken e now (subject uid (Some (user_email user)));
          newRefreshToken = generateRefreshToken e now (subject uid (Some (user_email user)));
          d3 = findByIdAndUpdate uid
                 (push_both \<lparr>token = newRefreshToken, createdAt = now, lastUsedAt = now\<rparr>
                            \<lparr>hist_token = refreshTok, hist_lastUsedAt = now\<rparr>) d2
      in (reply 200
            (SessionJson ''Token refreshed successfully'' newAccessToken uid
               (Some (user_email user)) (Some (name user)))
            (CookieSet newRefreshToken),
          d3))"

text \<open>
  \<open>refresh\<close>: \<^verbatim>\<open>POST /api/auth/refresh\<close>. The cookie is absent (\<open>None\<close>) or a string;
  an exception of \<^verbatim>\<open>verifyRefreshToken\<close> or of \<^verbatim>\<open>User.findById\<close> is caught by the
  handler's \<^verbatim>\<open>catch\<close>. The revocation of line 185 names the path \<^verbatim>\<open>refrehToken\<close>,
  as the source does.
\<close>

definition refresh ::
  "(string \<Rightarrow> bool) \<Rightarrow> env \<Rightarrow> millis \<Rightarrow> jwt option \<Rightarrow> db \<Rightarrow> response \<times> db" where
  "refresh isObjectId e now cookieValue d =
     (case cookieValue of
        None \<Rightarrow> (reply 401 (ErrorJson ''No refresh token provided'') CookieKept, d)
      | Some refreshTok \<Rightarrow>
          if refreshTok = Malformed [] then
            (reply 401 (ErrorJson ''No refresh token provided'') CookieKept, d)
          else
            (case verifyRefreshToken e now refreshTok of
               Inl err \<Rightarrow>
                 (reply 500 (MessageJson ''Server error during token refresh'') CookieCleared, d)
             | Inr decoded \<Rightarrow>
                 (case findById isObjectId d (userId decoded) of
                    Inl castError \<Rightarrow>
                      (reply 500 (MessageJson ''Server error during token refresh'')
                         CookieCleared, d)
                  | Inr None \<Rightarrow> (reply 403 (MessageJson ''User not found.'') CookieCleared, d)
                  | Inr (Some user) \<Rightarrow>
                      (let uid = userId decoded;
                           tokenData = List.find (\<lambda>tokenObj. token tokenObj = refreshTok)
                                         (refreshToken user);
                           recentlyUsed = List.find (\<lambda>t. now - hist_lastUsedAt t < 30 * 1000)
                                            (refreshHistory user)
                       in if tokenData = None \<and> recentlyUsed = None then
                            (let decodedExpiry =
                                   (case iat decoded of None \<Rightarrow> 0 | Some i \<Rightarrow> i) * 1000 + sevenDays
                             in if decodedExpiry < now then
                                  (reply 401 (MessageJson ''Session expired. Please log in again.'')
                                     CookieCleared, d)
                                else
                                  (reply 403 (MessageJson ''Security check failed. Please log in again.'')
                                     CookieCleared,
                                   findByIdAndUpdate uid (set_empty ''refrehToken'') d))
                          else refresh_rotate e now uid user refreshTok d))))"


section \<open>Handlers: \<^verbatim>\<open>src/controllers/userController.ts\<close>\<close>

text \<open>
  \<open>updatePassword\<close>: \<^verbatim>\<open>PUT /api/user/password\<close>. \<open>reqUser\<close> is \<^verbatim>\<open>req.user?.id\<close>
  (\<^verbatim>\<open>findById(undefined)\<close> finds nothing); \<open>hash\<close> is the pre-save hook's
  \<^verbatim>\<open>bcrypt.hash\<close> with its fresh salt.
\<close>

definition updatePassword ::
  "(string \<Rightarrow> bool) \<Rightarrow> (string \<Rightarrow> string) \<Rightarrow> (string \<Rightarrow> string \<Rightarrow> bool option) \<Rightarrow> string option
     \<Rightarrow> string \<Rightarrow> string \<Rightarrow> db \<Rightarrow> response \<times> db" where
  "updatePassword isObjectId hash cmp reqUser currentPassword newPassword d =
     (case reqUser of
        None \<Rightarrow> (reply 404 (ErrorJson ''User not found'') CookieKept, d)
      | Some i \<Rightarrow>
          (case findById isObjectId d i of
             Inl castError \<Rightarrow> (reply 500 (ErrorJson ''Internal server error'') CookieKept, d)
           | Inr None \<Rightarrow> (reply 404 (ErrorJson ''User not found'') CookieKept, d)
           | Inr (Some user) \<Rightarrow>
               (case comparePassword cmp user currentPassword of
                  None \<Rightarrow> (reply 500 (ErrorJson ''Internal server error'') CookieKept, d)
                | Some False \<Rightarrow>
                    (reply 401 (ErrorJson ''Current password is incorrect'') CookieKept, d)
                | Some True \<Rightarrow>
                    (let user1 = user\<lparr>password := hash newPassword\<rparr>;
                         d1 = save i user1 d;
                         user2 = user1\<lparr>refreshToken := []\<rparr>;
                         d2 = save i user2 d1
                     in (reply 200
                           (MessageJson ''Password updated succesfully. Please log in again.'')
                           CookieKept,
                         d2)))))"


section \<open>Example data\<close>

text \<open>A stand-in for bcrypt, for evaluating the handlers on concrete requests.\<close>

definition ex_hash :: "string \<Rightarrow> string" where
  "ex_hash p = ''h:'' @ p"

definition ex_cmp :: "string \<Rightarrow> string \<Rightarrow> bool option" where
  "ex_cmp candidate h = Some (h = ex_hash candidate)"

text \<open>A driver that casts exactly the strings of 24 hexadecimal digits, and Ann's id.\<close>

definition ex_isObjectId :: "string \<Rightarrow> bool" where
  "ex_isObjectId s = (length s = 24 \<and> list_all (\<lambda>c. c \<in> set ''0123456789abcdefABCDEF'') s)"

definition ex_id :: string where
  "ex_id = ''65a1b2c3d4e5f60718293a4b''"

text \<open>Ann's refresh tokens, issued under the default configuration at seconds 1000 and 2000.\<close>

definition ex_T :: jwt where
  "ex_T = generateRefreshToken default_env 1000000 (subject ex_id (Some ''a@x.com''))"

definition ex_A :: jwt where
  "ex_A = generateRefreshToken default_env 2000000 (subject ex_id (Some ''a@x.com''))"

definition ex_user :: "RefreshTokenEntry list \<Rightarrow> RefreshHistoryEntry list \<Rightarrow> User" where
  "ex_user act hist = \<lparr>user_email = ''a@x.com'', password = ex_hash ''pw123456'', name = ''Ann'',
                        refreshToken = act, refreshHistory = hist\<rparr>"

definition ex_db :: "RefreshTokenEntry list \<Rightarrow> RefreshHistoryEntry list \<Rightarrow> db" where
  "ex_db act hist = [(ex_id, ex_user act hist)]"

definition ex_entry :: "jwt \<Rightarrow> millis \<Rightarrow> RefreshTokenEntry" where
  "ex_entry t at = \<lparr>token = t, createdAt = at, lastUsedAt = at\<rparr>"

definition ex_hist :: "jwt \<Rightarrow> millis \<Rightarrow> RefreshHistoryEntry" where
  "ex_hist t at = \<lparr>hist_token = t, hist_lastUsedAt = at\<rparr>"


definition ex_S :: jwt where
  "ex_S = generateRefreshToken default_env 500000 (subject ex_id (Some ''a@x.com''))"

text \<open>A deployment that sets \<^verbatim>\<open>JWT_REFRESH_EXPIRY=30d\<close>, and a token Ann got from it.\<close>

definition ex_env30 :: env where
  "ex_env30 = default_env\<lparr>JWT_REFRESH_EXPIRY := Some (30 * 24 * 60 * 60)\<rparr>"

definition ex_T30 :: jwt where
  "ex_T30 = generateRefreshToken ex_env30 1000000 (subject ex_id (Some ''a@x.com''))"

text \<open>Eight days after second 1000, in milliseconds.\<close>

definition ex_day8 :: millis where
  "ex_day8 = 1000000 + 8 * 24 * 60 * 60 * 1000"


section \<open>Observations of the collection\<close>

text \<open>The token strings of a user's active array, and the user's rotation history.\<close>

definition activeTokens :: "db \<Rightarrow> string \<Rightarrow> jwt list" where
  "activeTokens d i = (case map_of d i of None \<Rightarrow> [] | Some u \<Rightarrow> map token (refreshToken u))"

definition historyOf :: "db \<Rightarrow> string \<Rightarrow> RefreshHistoryEntry list" where
  "historyOf d i = (case map_of d i of None \<Rightarrow> [] | Some u \<Rightarrow> refreshHistory u)"

text \<open>The response of a successful rotation for \<open>user\<close> at \<open>now\<close>: the minted pair.\<close>

definition session_reply :: "env \<Rightarrow> millis \<Rightarrow> string \<Rightarrow> User \<Rightarrow> response" where
  "session_reply e now uid user =
     reply 200
       (SessionJson ''Token refreshed successfully''
          (generateAccessToken e now (subject uid (Some (user_email user)))) uid
          (Some (user_email user)) (Some (name user)))
       (CookieSet (generateRefreshToken e now (subject uid (Some (user_email user)))))"

lemma ex_id_valid: "ex_isObjectId ex_id"
  by (simp add: ex_isObjectId_def ex_id_def)

lemmas codec_defs = env_or_def span_or_def access_secret_def refresh_secret_def
  access_expiry_def refresh_expiry_def default_env_def jwt_sign_def jwt_verify_def
  generateAccessToken_def generateRefreshToken_def verifyAccessToken_def
  verifyRefreshToken_def subject_def

lemmas store_defs = findById_def findOne_email_def findByIdAndUpdate_def save_def
  set_empty_def pull_createdAt_lt_def pull_token_def push_both_def comparePassword_def
  reply_def sevenDays_def activeTokens_def historyOf_def

lemmas ex_defs = ex_hash_def ex_cmp_def ex_T_def ex_A_def ex_S_def ex_env30_def ex_T30_def
  ex_day8_def ex_user_def ex_db_def ex_entry_def ex_hist_def ex_id_valid

lemmas eval_defs = refresh_def refresh_rotate_def login_def updatePassword_def session_reply_def
  codec_defs store_defs ex_defs Let_def


section \<open>The store\<close>

lemma findById_found:
  "findById oid d i = Inr (Some u) \<longleftrightarrow> oid i \<and> map_of d i = Some u"
  by (simp add: findById_def)

lemma findById_absent:
  "findById oid d i = Inr None \<longleftrightarrow> oid i \<and> map_of d i = None"
  by (simp add: findById_def)

lemma map_of_findByIdAndUpdate:
  "map_of (findByIdAndUpdate i f d) j =
     (if j = i then map_option f (map_of d i) else map_of d j)"
  by (simp add: findByIdAndUpdate_def AList.update_conv' split: option.splits)

lemma findByIdAndUpdate_same:
  assumes "\<And>u. f u = u"
  shows "findByIdAndUpdate i f d = d"
  by (simp add: findByIdAndUpdate_def assms AList.update_triv split: option.splits)

text \<open>The update of line 185 changes no document: its path is not one of the schema's.\<close>

lemma set_empty_typo: "set_empty ''refrehToken'' u = u"
  by (simp add: set_empty_def)


section \<open>The codec\<close>

lemma verify_Inr:
  assumes "verifyRefreshToken e now t = Inr p"
  shows "t = Jwt p (refresh_secret e)"
  using assms
  by (auto simp: verifyRefreshToken_def jwt_verify_def split: jwt.splits if_splits option.splits)

lemma verify_not_empty:
  assumes "verifyRefreshToken e now t = Inr p"
  shows "t \<noteq> Malformed []"
  using verify_Inr [OF assms] by simp

lemma minted_iat:
  assumes "iat p \<noteq> Some (now div 1000)"
  shows "generateRefreshToken e now (subject uid em) \<noteq> Jwt p k"
  using assms by (auto simp: generateRefreshToken_def jwt_sign_def subject_def Let_def)


section \<open>The paths of \<open>refresh\<close>\<close>

lemma rotate_response:
  "fst (refresh_rotate e now uid user t d) = session_reply e now uid user"
  by (simp add: refresh_rotate_def session_reply_def Let_def)

lemma rotate_store:
  assumes "findById oid d uid = Inr (Some u)"
  shows "findById oid (snd (refresh_rotate e now uid user t d)) uid =
           Inr (Some (u\<lparr>refreshToken :=
                      [x \<leftarrow> refreshToken u. \<not> createdAt x < now - sevenDays \<and> token x \<noteq> t] @
                      [\<lparr>token = generateRefreshToken e now (subject uid (Some (user_email user))),
                        createdAt = now, lastUsedAt = now\<rparr>],
                    refreshHistory := [\<lparr>hist_token = t, hist_lastUsedAt = now\<rparr>]\<rparr>))"
  using assms
  by (auto simp: findById_def refresh_rotate_def Let_def map_of_findByIdAndUpdate
      pull_createdAt_lt_def pull_token_def set_empty_def push_both_def split: if_splits)

text \<open>
  The presented token is rotated when it is in the active array, and also when any
  entry of the history is younger than 30 seconds.
\<close>

lemma refresh_accepted:
  assumes "verifyRefreshToken e now t = Inr p"
    and "findById oid d (userId p) = Inr (Some u)"
    and "t \<in> token ` set (refreshToken u)
         \<or> (\<exists>h \<in> set (refreshHistory u). now - hist_lastUsedAt h < 30 * 1000)"
  shows "refresh oid e now (Some t) d = refresh_rotate e now (userId p) u t d"
proof -
  have "List.find (\<lambda>x. token x = t) (refreshToken u) \<noteq> None
          \<or> List.find (\<lambda>h. now - hist_lastUsedAt h < 30 * 1000) (refreshHistory u) \<noteq> None"
    using assms(3) by (auto simp: find_None_iff)
  then show ?thesis
  proof
    assume "List.find (\<lambda>x. token x = t) (refreshToken u) \<noteq> None"
    then show ?thesis
      using assms(1,2) verify_not_empty [OF assms(1)] by (auto simp: refresh_def Let_def)
  next
    assume "List.find (\<lambda>h. now - hist_lastUsedAt h < 30 * 1000) (refreshHistory u) \<noteq> None"
    then show ?thesis
      using assms(1,2) verify_not_empty [OF assms(1)] by (auto simp: refresh_def Let_def)
  qed
qed

text \<open>Otherwise it is rejected, and the collection is as before in both branches.\<close>

lemma refresh_rejected:
  assumes "verifyRefreshToken e now t = Inr p"
    and "findById oid d (userId p) = Inr (Some u)"
    and "t \<notin> token ` set (refreshToken u)"
    and "\<forall>h \<in> set (refreshHistory u). 30 * 1000 \<le> now - hist_lastUsedAt h"
  shows "refresh oid e now (Some t) d =
           (if (case iat p of None \<Rightarrow> 0 | Some i \<Rightarrow> i) * 1000 + sevenDays < now
            then (reply 401 (MessageJson ''Session expired. Please log in again.'') CookieCleared, d)
            else (reply 403 (MessageJson ''Security check failed. Please log in again.'')
                    CookieCleared, d))"
proof -
  have "List.find (\<lambda>x. token x = t) (refreshToken u) = None"
    using assms(3) by (auto simp: find_None_iff)
  moreover have "List.find (\<lambda>h. now - hist_lastUsedAt h < 30 * 1000) (refreshHistory u) = None"
    using assms(4) by (auto simp: find_None_iff)
  ultimately show ?thesis
    using assms(1,2) verify_not_empty [OF assms(1)]
    by (simp add: refresh_def Let_def findByIdAndUpdate_same set_empty_typo)
qed

lemma refresh_unverified:
  assumes "verifyRefreshToken e now t = Inl err"
  shows "refresh oid e now (Some t) d =
           (if t = Malformed [] then (reply 401 (ErrorJson ''No refresh token provided'') CookieKept, d)
            else (reply 500 (MessageJson ''Server error during token refresh'') CookieCleared, d))"
  using assms by (simp add: refresh_def)

text \<open>A verified token whose subject the driver cannot cast ends in the handler's catch.\<close>

lemma refresh_cast_error:
  assumes "verifyRefreshToken e now t = Inr p"
    and "\<not> oid (userId p)"
  shows "refresh oid e now (Some t) d =
           (reply 500 (MessageJson ''Server error during token refresh'') CookieCleared, d)"
  using assms verify_not_empty [OF assms(1)] by (simp add: refresh_def findById_def)

lemma session_reply_cong:
  assumes "user_email v = user_email u" and "name v = name u"
  shows "session_reply e now uid v = session_reply e now uid u"
  by (simp add: session_reply_def assms)

text \<open>A token that is neither active nor covered by the history is never rotated.\<close>

lemma refresh_failed:
  assumes "findById oid d (userId p) = Inr (Some u)"
    and "T = Jwt p (refresh_secret e)"
    and "T \<notin> token ` set (refreshToken u)"
    and "\<forall>h \<in> set (refreshHistory u). 30 * 1000 \<le> now - hist_lastUsedAt h"
  shows "status (fst (refresh oid e now (Some T) d)) \<in> {401, 403, 500}
         \<and> cookie (fst (refresh oid e now (Some T) d)) = CookieCleared"
proof (cases "verifyRefreshToken e now T")
  case (Inl err)
  then show ?thesis
    using assms(2) by (simp add: refresh_unverified reply_def)
next
  case (Inr q)
  then have "q = p"
    using verify_Inr [OF Inr] assms(2) by simp
  then have v: "verifyRefreshToken e now T = Inr p"
    using Inr by simp
  show ?thesis
    unfolding refresh_rejected [OF v assms(1,3,4)] by (simp add: reply_def)
qed


section \<open>The successful paths of \<open>login\<close> and \<open>updatePassword\<close>\<close>

text \<open>
  A login that succeeds sets the cookie to a refresh token without email and stores
  nothing: the token it hands out is not in the user's active array.
\<close>

lemma login_success:
  assumes "findOne_email d em = Some (i, u)"
    and "comparePassword cmp u pw = Some True"
  shows "login e cmp now em pw d =
           (reply 200
              (SessionJson ''Login successfuly'' (generateAccessToken e now (subject i None)) i
                 None None)
              (CookieSet (generateRefreshToken e now (subject i None))),
            d)"
  using assms by (simp add: login_def Let_def)

text \<open>
  A password change that succeeds stores the new hash and the empty active array; the
  history stays.
\<close>

lemma updatePassword_success:
  assumes "findById oid d i = Inr (Some u)"
    and "comparePassword cmp u currentPassword = Some True"
  shows "status (fst (updatePassword oid hash cmp (Some i) currentPassword newPassword d)) = 200
         \<and> findById oid (snd (updatePassword oid hash cmp (Some i) currentPassword newPassword d)) i
           = Inr (Some (u\<lparr>password := hash newPassword, refreshToken := []\<rparr>))"
  using assms
  by (auto simp: findById_def updatePassword_def Let_def reply_def save_def
      map_of_findByIdAndUpdate split: if_splits)


section \<open>Reuse detection\<close>

text \<open>
  C1. A verified token of an existing user that is neither active nor covered by a
  recent history entry, and is younger than seven days, is answered 403 with the cookie
  cleared. The user's active array is not emptied: Ann's other token \<open>ex_A\<close> is still
  active after the 403, and rotates successfully one second later.
\<close>

theorem refresh_reuse_keeps_active:
  "status (fst (refresh ex_isObjectId default_env 2005000 (Some ex_T)
        (ex_db [ex_entry ex_A 2000000] []))) = 403
   \<and> cookie (fst (refresh ex_isObjectId default_env 2005000 (Some ex_T)
        (ex_db [ex_entry ex_A 2000000] []))) = CookieCleared
   \<and> activeTokens (snd (refresh ex_isObjectId default_env 2005000 (Some ex_T)
        (ex_db [ex_entry ex_A 2000000] []))) ex_id = [ex_A]
   \<and> status (fst (refresh ex_isObjectId default_env 2006000 (Some ex_A)
        (snd (refresh ex_isObjectId default_env 2005000 (Some ex_T)
           (ex_db [ex_entry ex_A 2000000] []))))) = 200"
  by (simp add: eval_defs)


section \<open>The grace window\<close>

text \<open>
  C2. The grace check looks only at the age of the history entries. Ann's history
  records \<open>ex_T\<close>, retired five seconds ago; the presented token \<open>ex_S\<close> is a different
  string and is not active, and it is rotated all the same.
\<close>

theorem refresh_grace_ignores_token:
  "ex_S \<noteq> ex_T
   \<and> ex_S \<notin> set (activeTokens (ex_db [ex_entry ex_A 2000000] [ex_hist ex_T 2000000]) ex_id)
   \<and> map hist_token (historyOf (ex_db [ex_entry ex_A 2000000] [ex_hist ex_T 2000000]) ex_id)
       = [ex_T]
   \<and> status (fst (refresh ex_isObjectId default_env 2005000 (Some ex_S)
        (ex_db [ex_entry ex_A 2000000] [ex_hist ex_T 2000000]))) = 200
   \<and> cookie (fst (refresh ex_isObjectId default_env 2005000 (Some ex_S)
        (ex_db [ex_entry ex_A 2000000] [ex_hist ex_T 2000000])))
       = CookieSet (generateRefreshToken default_env 2005000 (subject ex_id (Some ''a@x.com'')))"
  by (simp add: eval_defs)

text \<open>
  C3, as stated, fails: Ann's only active token \<open>ex_T\<close> is presented twice, five
  seconds apart. Both calls are answered 200, and two entries are active afterwards.
\<close>

theorem refresh_twice_two_active:
  "status (fst (refresh ex_isObjectId default_env 2000000 (Some ex_T)
        (ex_db [ex_entry ex_T 1000000] []))) = 200
   \<and> status (fst (refresh ex_isObjectId default_env 2005000 (Some ex_T)
        (snd (refresh ex_isObjectId default_env 2000000 (Some ex_T)
           (ex_db [ex_entry ex_T 1000000] []))))) = 200
   \<and> length (activeTokens (snd (refresh ex_isObjectId default_env 2005000 (Some ex_T)
        (snd (refresh ex_isObjectId default_env 2000000 (Some ex_T)
           (ex_db [ex_entry ex_T 1000000] []))))) ex_id) = 2"
  by (simp add: eval_defs)

text \<open>
  C3, amended. Let \<open>T\<close> be active for its user, issued in an earlier second than the
  first call, and let it verify at both calls, which are less than 30 seconds apart.
  Then both calls are answered 200, each with the pair the codec mints at that instant
  for the user. After the second call the active array holds the surviving other
  entries followed by the refresh tokens of both calls, and \<open>T\<close> is not among them. A
  third call with \<open>T\<close>, 30 seconds or more after the second, is refused (401, 403 or
  500) and the cookie is cleared.
\<close>

theorem refresh_twice_within_grace:
  assumes v1: "verifyRefreshToken e now1 T = Inr p"
    and v2: "verifyRefreshToken e now2 T = Inr p"
    and usr: "findById oid d (userId p) = Inr (Some u)"
    and act: "T \<in> token ` set (refreshToken u)"
    and iss: "iat p = Some i" "i < now1 div 1000"
    and ord: "now1 \<le> now2" "now2 - now1 < 30 * 1000"
  shows "fst (refresh oid e now1 (Some T) d) = session_reply e now1 (userId p) u
       \<and> fst (refresh oid e now2 (Some T) (snd (refresh oid e now1 (Some T) d)))
           = session_reply e now2 (userId p) u
       \<and> activeTokens (snd (refresh oid e now2 (Some T) (snd (refresh oid e now1 (Some T) d))))
           (userId p)
           = map token [x \<leftarrow> refreshToken u. \<not> createdAt x < now2 - sevenDays \<and> token x \<noteq> T]
             @ [generateRefreshToken e now1 (subject (userId p) (Some (user_email u))),
                generateRefreshToken e now2 (subject (userId p) (Some (user_email u)))]
       \<and> (\<forall>now3. 30 * 1000 \<le> now3 - now2 \<longrightarrow>
            status (fst (refresh oid e now3 (Some T)
              (snd (refresh oid e now2 (Some T) (snd (refresh oid e now1 (Some T) d))))))
              \<in> {401, 403, 500}
            \<and> cookie (fst (refresh oid e now3 (Some T)
              (snd (refresh oid e now2 (Some T) (snd (refresh oid e now1 (Some T) d))))))
              = CookieCleared)"
proof -
  let ?uid = "userId p"
  let ?N1 = "generateRefreshToken e now1 (subject ?uid (Some (user_email u)))"
  let ?N2 = "generateRefreshToken e now2 (subject ?uid (Some (user_email u)))"
  let ?d1 = "snd (refresh oid e now1 (Some T) d)"
  let ?d2 = "snd (refresh oid e now2 (Some T) ?d1)"
  define u1 where "u1 = u\<lparr>refreshToken :=
      [x \<leftarrow> refreshToken u. \<not> createdAt x < now1 - sevenDays \<and> token x \<noteq> T] @
      [\<lparr>token = ?N1, createdAt = now1, lastUsedAt = now1\<rparr>],
      refreshHistory := [\<lparr>hist_token = T, hist_lastUsedAt = now1\<rparr>]\<rparr>"
  define u2 where "u2 = u1\<lparr>refreshToken :=
      [x \<leftarrow> refreshToken u1. \<not> createdAt x < now2 - sevenDays \<and> token x \<noteq> T] @
      [\<lparr>token = ?N2, createdAt = now2, lastUsedAt = now2\<rparr>],
      refreshHistory := [\<lparr>hist_token = T, hist_lastUsedAt = now2\<rparr>]\<rparr>"
  have T_eq: "T = Jwt p (refresh_secret e)"
    by (rule verify_Inr [OF v1])
  have secs: "now1 div 1000 \<le> now2 div 1000"
    using ord(1) by (simp add: zdiv_mono1)
  have n1: "?N1 \<noteq> T"
    unfolding T_eq by (rule minted_iat) (use iss in simp)
  have n2: "?N2 \<noteq> T"
    unfolding T_eq by (rule minted_iat) (use iss secs in simp)
  have same1: "user_email u1 = user_email u" "name u1 = name u"
    by (simp_all add: u1_def)
  \<comment> \<open>first call: the token is active\<close>
  have r1: "refresh oid e now1 (Some T) d = refresh_rotate e now1 ?uid u T d"
    by (rule refresh_accepted [OF v1 usr]) (simp add: act)
  have f1: "findById oid ?d1 ?uid = Inr (Some u1)"
    unfolding r1 u1_def by (rule rotate_store [OF usr])
  \<comment> \<open>second call: the token is no longer active, the history entry is recent\<close>
  have grace: "\<exists>h \<in> set (refreshHistory u1). now2 - hist_lastUsedAt h < 30 * 1000"
    using ord(2) by (simp add: u1_def)
  have r2: "refresh oid e now2 (Some T) ?d1 = refresh_rotate e now2 ?uid u1 T ?d1"
    by (rule refresh_accepted [OF v2 f1]) (use grace in blast)
  have f2: "findById oid ?d2 ?uid = Inr (Some u2)"
    unfolding r2 u2_def same1 [symmetric] by (rule rotate_store [OF f1])
  have week: "\<not> now1 < now2 - sevenDays"
    using ord(2) by (simp add: sevenDays_def)
  have keep: "[x \<leftarrow> refreshToken u. (\<not> createdAt x < now1 - sevenDays \<and> token x \<noteq> T)
                 \<and> \<not> createdAt x < now2 - sevenDays \<and> token x \<noteq> T]
              = [x \<leftarrow> refreshToken u. \<not> createdAt x < now2 - sevenDays \<and> token x \<noteq> T]"
    by (rule filter_cong) (use ord(1) in auto)
  have tokens2: "map token (refreshToken u2)
      = map token [x \<leftarrow> refreshToken u. \<not> createdAt x < now2 - sevenDays \<and> token x \<noteq> T]
        @ [?N1, ?N2]"
    using week n1 keep by (simp add: u2_def u1_def)
  have c1: "fst (refresh oid e now1 (Some T) d) = session_reply e now1 ?uid u"
    unfolding r1 by (rule rotate_response)
  have c2: "fst (refresh oid e now2 (Some T) ?d1) = session_reply e now2 ?uid u"
    unfolding r2 rotate_response by (rule session_reply_cong [OF same1])
  have c3: "activeTokens ?d2 ?uid
      = map token [x \<leftarrow> refreshToken u. \<not> createdAt x < now2 - sevenDays \<and> token x \<noteq> T]
        @ [?N1, ?N2]"
    using f2 tokens2 by (auto simp: activeTokens_def findById_def split: if_splits)
  \<comment> \<open>third call: not active, and the only history entry is too old\<close>
  have gone: "T \<notin> set (map token (refreshToken u2))"
    unfolding tokens2 using n1 n2 by auto
  then have gone': "T \<notin> token ` set (refreshToken u2)"
    by simp
  have c4: "status (fst (refresh oid e now3 (Some T) ?d2)) \<in> {401, 403, 500}
            \<and> cookie (fst (refresh oid e now3 (Some T) ?d2)) = CookieCleared"
    if "30 * 1000 \<le> now3 - now2" for now3
  proof (rule refresh_failed [OF f2 T_eq gone'])
    show "\<forall>h \<in> set (refreshHistory u2). 30 * 1000 \<le> now3 - hist_lastUsedAt h"
      using that by (simp add: u2_def)
  qed
  show ?thesis
    using c1 c2 c3 c4 by blast
qed

text \<open>
  C3, amended, at Ann's only active token: calls at 2000 s and 2005 s, a third at
  2040 s.
\<close>

theorem refresh_twice_within_grace_witness:
  "verifyRefreshToken default_env 2000000 ex_T
     = Inr \<lparr>userId = ex_id, email = Some ''a@x.com'', iat = Some 1000, exp = Some 605800\<rparr>
   \<and> verifyRefreshToken default_env 2005000 ex_T
     = Inr \<lparr>userId = ex_id, email = Some ''a@x.com'', iat = Some 1000, exp = Some 605800\<rparr>
   \<and> activeTokens (ex_db [ex_entry ex_T 1000000] []) ex_id = [ex_T]
   \<and> fst (refresh ex_isObjectId default_env 2000000 (Some ex_T) (ex_db [ex_entry ex_T 1000000] []))
       = session_reply default_env 2000000 ex_id (ex_user [ex_entry ex_T 1000000] [])
   \<and> fst (refresh ex_isObjectId default_env 2005000 (Some ex_T)
        (snd (refresh ex_isObjectId default_env 2000000 (Some ex_T)
           (ex_db [ex_entry ex_T 1000000] []))))
       = session_reply default_env 2005000 ex_id (ex_user [ex_entry ex_T 1000000] [])
   \<and> activeTokens (snd (refresh ex_isObjectId default_env 2005000 (Some ex_T)
        (snd (refresh ex_isObjectId default_env 2000000 (Some ex_T)
           (ex_db [ex_entry ex_T 1000000] []))))) ex_id
       = [generateRefreshToken default_env 2000000 (subject ex_id (Some ''a@x.com'')),
          generateRefreshToken default_env 2005000 (subject ex_id (Some ''a@x.com''))]
   \<and> status (fst (refresh ex_isObjectId default_env 2040000 (Some ex_T)
        (snd (refresh ex_isObjectId default_env 2005000 (Some ex_T)
          (snd (refresh ex_isObjectId default_env 2000000 (Some ex_T)
             (ex_db [ex_entry ex_T 1000000] [])))))))
       \<in> {401, 403, 500}
   \<and> cookie (fst (refresh ex_isObjectId default_env 2040000 (Some ex_T)
        (snd (refresh ex_isObjectId default_env 2005000 (Some ex_T)
          (snd (refresh ex_isObjectId default_env 2000000 (Some ex_T)
             (ex_db [ex_entry ex_T 1000000] [])))))))
       = CookieCleared"
proof -
  let ?p = "\<lparr>userId = ex_id, email = Some ''a@x.com'', iat = Some 1000, exp = Some 605800\<rparr>"
  let ?u = "ex_user [ex_entry ex_T 1000000] []"
  let ?d = "ex_db [ex_entry ex_T 1000000] []"
  have v1: "verifyRefreshToken default_env 2000000 ex_T = Inr ?p"
    by (simp add: codec_defs ex_defs Let_def)
  have v2: "verifyRefreshToken default_env 2005000 ex_T = Inr ?p"
    by (simp add: codec_defs ex_defs Let_def)
  have usr: "findById ex_isObjectId ?d (userId ?p) = Inr (Some ?u)"
    by (simp add: findById_def ex_db_def ex_id_valid)
  have act: "ex_T \<in> token ` set (refreshToken ?u)"
    by (simp add: ex_user_def ex_entry_def)
  have iss: "iat ?p = Some 1000" "(1000::int) < 2000000 div 1000"
    by simp_all
  have ord: "(2000000::int) \<le> 2005000" "(2005000::int) - 2000000 < 30 * 1000"
    by simp_all
  have before: "activeTokens ?d ex_id = [ex_T]"
    by (simp add: activeTokens_def ex_db_def ex_user_def ex_entry_def)
  have late: "(30::int) * 1000 \<le> 2040000 - 2005000"
    by simp
  note inst = refresh_twice_within_grace [OF v1 v2 usr act iss ord]
  have third: "status (fst (refresh ex_isObjectId default_env 2040000 (Some ex_T)
        (snd (refresh ex_isObjectId default_env 2005000 (Some ex_T)
          (snd (refresh ex_isObjectId default_env 2000000 (Some ex_T) ?d)))))) \<in> {401, 403, 500}
     \<and> cookie (fst (refresh ex_isObjectId default_env 2040000 (Some ex_T)
        (snd (refresh ex_isObjectId default_env 2005000 (Some ex_T)
          (snd (refresh ex_isObjectId default_env 2000000 (Some ex_T) ?d)))))) = CookieCleared"
    using inst late by blast
  have kept: "[x \<leftarrow> refreshToken ?u. \<not> createdAt x < 2005000 - sevenDays \<and> token x \<noteq> ex_T] = []"
    by (simp add: ex_user_def ex_entry_def)
  have names: "userId ?p = ex_id" "user_email ?u = ''a@x.com''"
    by (simp_all add: ex_user_def)
  show ?thesis
    using inst third v1 v2 before unfolding kept names by simp
qed


section \<open>Password change\<close>

text \<open>
  C4. A successful \<open>updatePassword\<close> empties the active array and leaves the history
  as it was. Five seconds after a rotation that retired \<open>ex_T\<close>, Ann changes her
  password; the retired token \<open>ex_T\<close> and the formerly active \<open>ex_A\<close> are each still
  rotated afterwards.
\<close>

theorem updatePassword_keeps_history:
  "status (fst (updatePassword ex_isObjectId ex_hash ex_cmp (Some ex_id) ''pw123456'' ''newpw123''
        (ex_db [ex_entry ex_A 2000000] [ex_hist ex_T 2000000]))) = 200
   \<and> activeTokens (snd (updatePassword ex_isObjectId ex_hash ex_cmp (Some ex_id) ''pw123456''
        ''newpw123'' (ex_db [ex_entry ex_A 2000000] [ex_hist ex_T 2000000]))) ex_id = []
   \<and> historyOf (snd (updatePassword ex_isObjectId ex_hash ex_cmp (Some ex_id) ''pw123456''
        ''newpw123'' (ex_db [ex_entry ex_A 2000000] [ex_hist ex_T 2000000]))) ex_id
       = [ex_hist ex_T 2000000]
   \<and> status (fst (refresh ex_isObjectId default_env 2005000 (Some ex_T)
        (snd (updatePassword ex_isObjectId ex_hash ex_cmp (Some ex_id) ''pw123456'' ''newpw123''
           (ex_db [ex_entry ex_A 2000000] [ex_hist ex_T 2000000]))))) = 200
   \<and> status (fst (refresh ex_isObjectId default_env 2005000 (Some ex_A)
        (snd (updatePassword ex_isObjectId ex_hash ex_cmp (Some ex_id) ''pw123456'' ''newpw123''
           (ex_db [ex_entry ex_A 2000000] [ex_hist ex_T 2000000]))))) = 200"
  by (simp add: eval_defs)

text \<open>
  C10. When the user exists and the supplied current password does not match the
  stored hash, \<open>updatePassword\<close> answers 401 and the collection is exactly as before:
  hash, active array and history unchanged.
\<close>

theorem updatePassword_wrong_current:
  assumes "findById oid d i = Inr (Some u)"
    and "comparePassword cmp u currentPassword = Some False"
  shows "updatePassword oid hash cmp (Some i) currentPassword newPassword d
           = (reply 401 (ErrorJson ''Current password is incorrect'') CookieKept, d)"
  using assms by (simp add: updatePassword_def)

text \<open>C10, at Ann's document with one active token and one history entry.\<close>

theorem updatePassword_wrong_current_witness:
  "findById ex_isObjectId (ex_db [ex_entry ex_A 2000000] [ex_hist ex_T 2000000]) ex_id
     = Inr (Some (ex_user [ex_entry ex_A 2000000] [ex_hist ex_T 2000000]))
   \<and> comparePassword ex_cmp (ex_user [ex_entry ex_A 2000000] [ex_hist ex_T 2000000]) ''wrong''
       = Some False
   \<and> updatePassword ex_isObjectId ex_hash ex_cmp (Some ex_id) ''wrong'' ''newpw123''
        (ex_db [ex_entry ex_A 2000000] [ex_hist ex_T 2000000])
     = (reply 401 (ErrorJson ''Current password is incorrect'') CookieKept,
        ex_db [ex_entry ex_A 2000000] [ex_hist ex_T 2000000])"
proof -
  let ?d = "ex_db [ex_entry ex_A 2000000] [ex_hist ex_T 2000000]"
  let ?u = "ex_user [ex_entry ex_A 2000000] [ex_hist ex_T 2000000]"
  have f: "findById ex_isObjectId ?d ex_id = Inr (Some ?u)"
    by (simp add: findById_def ex_db_def ex_id_valid)
  have c: "comparePassword ex_cmp ?u ''wrong'' = Some False"
    by (simp add: comparePassword_def ex_cmp_def ex_hash_def ex_user_def)
  show ?thesis
    using updatePassword_wrong_current [OF f c, of ex_hash "''newpw123''"] f c by simp
qed


section \<open>Failures of \<open>refresh\<close>\<close>

text \<open>
  C5. A cookie that fails verification is answered 500, not 401: a string that is no
  token, an access token presented as a refresh token, and a refresh token eight days
  after it was issued. The cookie is cleared and the collection is unchanged.
\<close>

theorem refresh_invalid_token_500:
  "refresh ex_isObjectId default_env 2005000 (Some (Malformed ''garbage''))
        (ex_db [ex_entry ex_A 2000000] [])
     = (reply 500 (MessageJson ''Server error during token refresh'') CookieCleared,
        ex_db [ex_entry ex_A 2000000] [])
   \<and> refresh ex_isObjectId default_env 2005000
        (Some (generateAccessToken default_env 2000000 (subject ex_id (Some ''a@x.com''))))
        (ex_db [ex_entry ex_A 2000000] [])
     = (reply 500 (MessageJson ''Server error during token refresh'') CookieCleared,
        ex_db [ex_entry ex_A 2000000] [])
   \<and> verifyRefreshToken default_env (1000000 + 8 * 24 * 60 * 60 * 1000) ex_T = Inl TokenExpiredError
   \<and> refresh ex_isObjectId default_env (1000000 + 8 * 24 * 60 * 60 * 1000) (Some ex_T)
        (ex_db [ex_entry ex_T 1000000] [])
     = (reply 500 (MessageJson ''Server error during token refresh'') CookieCleared,
        ex_db [ex_entry ex_T 1000000] [])"
  by (simp add: eval_defs)

text \<open>
  C6. A refresh token presented eight days after its issue, found neither in the
  active array nor in the history, is not answered 401 ``Session expired''. Under the
  default seven-day expiry \<open>ex_T\<close> no longer verifies and the answer is 500; the
  collection is unchanged. Where refresh tokens live 30 days, \<open>ex_T30\<close> verifies, is
  not active and is not the token of the history entry, which records \<open>ex_S\<close> five
  seconds ago; it is rotated with 200.
\<close>

theorem refresh_aged_token_not_401:
  "ex_T \<notin> set (activeTokens (ex_db [ex_entry ex_A 2000000] []) ex_id)
   \<and> historyOf (ex_db [ex_entry ex_A 2000000] []) ex_id = []
   \<and> refresh ex_isObjectId default_env ex_day8 (Some ex_T) (ex_db [ex_entry ex_A 2000000] [])
     = (reply 500 (MessageJson ''Server error during token refresh'') CookieCleared,
        ex_db [ex_entry ex_A 2000000] [])
   \<and> ex_T30 \<notin> set (activeTokens (ex_db [ex_entry ex_A 2000000] [ex_hist ex_S (ex_day8 - 5000)])
        ex_id)
   \<and> ex_T30 \<notin> set (map hist_token
        (historyOf (ex_db [ex_entry ex_A 2000000] [ex_hist ex_S (ex_day8 - 5000)]) ex_id))
   \<and> status (fst (refresh ex_isObjectId ex_env30 ex_day8 (Some ex_T30)
        (ex_db [ex_entry ex_A 2000000] [ex_hist ex_S (ex_day8 - 5000)]))) = 200
   \<and> cookie (fst (refresh ex_isObjectId ex_env30 ex_day8 (Some ex_T30)
        (ex_db [ex_entry ex_A 2000000] [ex_hist ex_S (ex_day8 - 5000)])))
       = CookieSet (generateRefreshToken ex_env30 ex_day8 (subject ex_id (Some ''a@x.com'')))"
  by (simp add: eval_defs)

text \<open>
  C7, as stated, fails: a verified token whose subject is a well-formed id but no user
  of the collection is answered 403, not 401.
\<close>

theorem refresh_unknown_user_403:
  "status (fst (refresh ex_isObjectId default_env 2005000 (Some ex_T) [])) = 403
   \<and> status (fst (refresh ex_isObjectId default_env 2005000 (Some ex_T) [])) \<noteq> 401"
  by (simp add: eval_defs)

text \<open>
  C7, amended. When the presented token verifies and its subject id is one the driver
  casts to an ObjectId and matches no user, \<open>refresh\<close> answers 403 ``User not found.''
  and clears the cookie; the collection is unchanged.
\<close>

theorem refresh_unknown_user:
  assumes "verifyRefreshToken e now t = Inr decoded"
    and "findById oid d (userId decoded) = Inr None"
  shows "refresh oid e now (Some t) d
           = (reply 403 (MessageJson ''User not found.'') CookieCleared, d)"
  using assms verify_not_empty [OF assms(1)] by (simp add: refresh_def)

text \<open>C7, amended, at Ann's token and the empty collection.\<close>

theorem refresh_unknown_user_witness:
  "verifyRefreshToken default_env 2005000 ex_T
     = Inr \<lparr>userId = ex_id, email = Some ''a@x.com'', iat = Some 1000, exp = Some 605800\<rparr>
   \<and> findById ex_isObjectId [] ex_id = Inr None
   \<and> refresh ex_isObjectId default_env 2005000 (Some ex_T) []
     = (reply 403 (MessageJson ''User not found.'') CookieCleared, [])"
proof -
  let ?p = "\<lparr>userId = ex_id, email = Some ''a@x.com'', iat = Some 1000, exp = Some 605800\<rparr>"
  have v: "verifyRefreshToken default_env 2005000 ex_T = Inr ?p"
    by (simp add: codec_defs ex_defs Let_def)
  have u: "findById ex_isObjectId [] (userId ?p) = Inr None"
    by (simp add: findById_def ex_id_valid)
  show ?thesis
    using refresh_unknown_user [OF v u] v u by simp
qed


section \<open>Login\<close>

text \<open>
  C8. When no user has the email, and when the user's password does not match,
  \<open>login\<close> gives one and the same response, 401 ``Invalid credentials'', sets no
  cookie, and leaves the whole collection as it was: no entry is created or removed
  for any user.
\<close>

theorem login_invalid_credentials:
  assumes "findOne_email d em = None
           \<or> (\<exists>i u. findOne_email d em = Some (i, u) \<and> comparePassword cmp u pw = Some False)"
  shows "login e cmp now em pw d = (reply 401 (ErrorJson ''Invalid credentials'') CookieKept, d)"
  using assms by (auto simp: login_def)

text \<open>C8, at an unknown email and at Ann's email with a wrong password.\<close>

theorem login_invalid_credentials_witness:
  "findOne_email (ex_db [] []) ''b@x.com'' = None
   \<and> login default_env ex_cmp 2000000 ''b@x.com'' ''pw123456'' (ex_db [] [])
       = (reply 401 (ErrorJson ''Invalid credentials'') CookieKept, ex_db [] [])
   \<and> findOne_email (ex_db [] []) ''a@x.com'' = Some (ex_id, ex_user [] [])
   \<and> comparePassword ex_cmp (ex_user [] []) ''wrong'' = Some False
   \<and> login default_env ex_cmp 2000000 ''a@x.com'' ''wrong'' (ex_db [] [])
       = (reply 401 (ErrorJson ''Invalid credentials'') CookieKept, ex_db [] [])"
proof -
  have absent: "findOne_email (ex_db [] []) ''b@x.com'' = None"
    by (simp add: store_defs ex_defs)
  have present: "findOne_email (ex_db [] []) ''a@x.com'' = Some (ex_id, ex_user [] [])"
    by (simp add: store_defs ex_defs)
  have wrong: "comparePassword ex_cmp (ex_user [] []) ''wrong'' = Some False"
    by (simp add: store_defs ex_defs)
  show ?thesis
    using login_invalid_credentials
            [of "ex_db [] []" "''b@x.com''" ex_cmp "''pw123456''" default_env 2000000]
      login_invalid_credentials
            [of "ex_db [] []" "''a@x.com''" ex_cmp "''wrong''" default_env 2000000]
      absent present wrong
    by simp
qed


section \<open>Round trip of the codec\<close>

text \<open>
  C9. Let the access secret and the refresh secret be different. A token issued for a
  subject id and email at \<open>t0\<close> verifies under its own kind, at any time \<open>t\<close> whose
  second lies before the token's expiry, to that subject id and email (with the issue
  and expiry seconds); from the expiry second on it fails as expired. Under the other
  kind it fails at every time.
\<close>

theorem codec_roundtrip:
  assumes "access_secret e \<noteq> refresh_secret e"
  shows "verifyAccessToken e t (generateAccessToken e t0 (subject uid (Some em)))
           = (if t div 1000 < t0 div 1000 + access_expiry e
              then Inr \<lparr>userId = uid, email = Some em, iat = Some (t0 div 1000),
                        exp = Some (t0 div 1000 + access_expiry e)\<rparr>
              else Inl TokenExpiredError)
       \<and> verifyRefreshToken e t (generateRefreshToken e t0 (subject uid (Some em)))
           = (if t div 1000 < t0 div 1000 + refresh_expiry e
              then Inr \<lparr>userId = uid, email = Some em, iat = Some (t0 div 1000),
                        exp = Some (t0 div 1000 + refresh_expiry e)\<rparr>
              else Inl TokenExpiredError)
       \<and> verifyRefreshToken e t (generateAccessToken e t0 (subject uid (Some em)))
           = Inl JsonWebTokenError
       \<and> verifyAccessToken e t (generateRefreshToken e t0 (subject uid (Some em)))
           = Inl JsonWebTokenError"
  using assms
  by (auto simp: verifyAccessToken_def verifyRefreshToken_def generateAccessToken_def
      generateRefreshToken_def jwt_sign_def jwt_verify_def subject_def Let_def)

text \<open>
  C9, under the default configuration: a token issued at 1000 s, verified at 1500 s
  and at its expiry second.
\<close>

theorem codec_roundtrip_witness:
  "access_secret default_env \<noteq> refresh_secret default_env
   \<and> verifyAccessToken default_env 1500000
        (generateAccessToken default_env 1000000 (subject ex_id (Some ''a@x.com'')))
       = Inr \<lparr>userId = ex_id, email = Some ''a@x.com'', iat = Some 1000, exp = Some 1900\<rparr>
   \<and> verifyAccessToken default_env 1900000
        (generateAccessToken default_env 1000000 (subject ex_id (Some ''a@x.com'')))
       = Inl TokenExpiredError
   \<and> verifyRefreshToken default_env 1500000
        (generateRefreshToken default_env 1000000 (subject ex_id (Some ''a@x.com'')))
       = Inr \<lparr>userId = ex_id, email = Some ''a@x.com'', iat = Some 1000, exp = Some 605800\<rparr>
   \<and> verifyRefreshToken default_env 605800000
        (generateRefreshToken default_env 1000000 (subject ex_id (Some ''a@x.com'')))
       = Inl TokenExpiredError
   \<and> verifyRefreshToken default_env 1500000
        (generateAccessToken default_env 1000000 (subject ex_id (Some ''a@x.com'')))
       = Inl JsonWebTokenError
   \<and> verifyAccessToken default_env 1500000
        (generateRefreshToken default_env 1000000 (subject ex_id (Some ''a@x.com'')))
       = Inl JsonWebTokenError"
proof -
  have secrets: "access_secret default_env \<noteq> refresh_secret default_env"
    by (simp add: access_secret_def refresh_secret_def env_or_def default_env_def)
  have spans: "access_expiry default_env = 900" "refresh_expiry default_env = 604800"
    by (simp_all add: access_expiry_def refresh_expiry_def span_or_def default_env_def)
  show ?thesis
    using secrets
      codec_roundtrip [OF secrets, of 1500000 1000000 ex_id "''a@x.com''"]
      codec_roundtrip [OF secrets, of 1900000 1000000 ex_id "''a@x.com''"]
      codec_roundtrip [OF secrets, of 605800000 1000000 ex_id "''a@x.com''"]
    unfolding spans by simp
qed

end
